theory Spec2Isabelle
  imports Complex_Main
begin

section \<open>Exceptions and values of the embedding\<close>

text \<open>
  The exceptions the modelled code can raise. \<open>FmaskParameterError\<close> and
  \<open>FmaskFileError\<close> are the two classes of the package's own module
  \<^verbatim>\<open>fmaskerrors\<close>; the others are Python's built-in exceptions, raised by the
  interpreter itself (a missing dictionary key, an unbound local variable, a value of the
  wrong type, a missing attribute, an index out of range, text that is not a number).
\<close>

datatype error =
    FmaskParameterError
  | FmaskFileError
  | KeyError
  | ValueError
  | TypeError
  | AttributeError
  | IndexError
  | UnboundLocalError

text \<open>
  A region of a 2-d grid, as handed to the angle queries: the pixels it holds, each as a
  (row, column) pair.
\<close>

type_synonym region = "(nat \<times> nat) list"

section \<open>Python strings\<close>

text \<open>
  A Python \<^verbatim>\<open>str\<close> is a list of characters. The characters of the model are
  Isabelle's 8-bit \<open>char\<close>, the code points below 256; the metadata files read here
  are ASCII. \<open>py_isspace\<close> is \<^verbatim>\<open>str.isspace\<close> on those code points: tab, line feed,
  vertical tab, form feed, carriage return, the four separators 0x1C to 0x1F, space,
  next-line 0x85 and no-break space 0xA0.
\<close>

definition py_isspace :: "char \<Rightarrow> bool" where
  "py_isspace c = (c \<in> set [CHR 0x09, CHR 0x0A, CHR 0x0B, CHR 0x0C, CHR 0x0D,
      CHR 0x1C, CHR 0x1D, CHR 0x1E, CHR 0x1F, CHR 0x20, CHR 0x85, CHR 0xA0])"

text \<open>\<^verbatim>\<open>s.strip()\<close>: whitespace removed from both ends, nothing else.\<close>

definition py_strip :: "string \<Rightarrow> string" where
  "py_strip s = rev (dropWhile py_isspace (rev (dropWhile py_isspace s)))"

text \<open>
  \<^verbatim>\<open>s.split(sep)\<close> for a one-character separator: the text is cut at every
  occurrence, so a text with n separators gives n + 1 pieces, and the empty text gives one
  empty piece.
\<close>

fun py_split :: "char \<Rightarrow> string \<Rightarrow> string list" where
  "py_split sep [] = [[]]"
| "py_split sep (c # cs) =
     (if c = sep then [] # py_split sep cs
      else (case py_split sep cs of w # ws \<Rightarrow> (c # w) # ws | [] \<Rightarrow> [[c]]))"

text \<open>
  \<^verbatim>\<open>open(mtl)\<close> opens the file as text with universal newlines: a carriage return
  followed by a line feed, a carriage return alone and a line feed alone each end a line,
  and each reaches the program as one line feed.
\<close>

fun universal_newlines :: "string \<Rightarrow> string" where
  "universal_newlines [] = []"
| "universal_newlines [c] = [if c = CHR 0x0D then CHR 0x0A else c]"
| "universal_newlines (c # d # ds) =
     (if c = CHR 0x0D \<and> d = CHR 0x0A then CHR 0x0A # universal_newlines ds
      else if c = CHR 0x0D then CHR 0x0A # universal_newlines (d # ds)
      else c # universal_newlines (d # ds))"

text \<open>
  A text cut after every line feed: each line keeps its line feed, a last line without
  one is a line too, and the empty text has no lines.
\<close>

fun split_lines :: "string \<Rightarrow> string list" where
  "split_lines [] = []"
| "split_lines (c # cs) =
     (if c = CHR 0x0A then [c] # split_lines cs
      else (case split_lines cs of l # ls \<Rightarrow> (c # l) # ls | [] \<Rightarrow> [[c]]))"

text \<open>
  \<^verbatim>\<open>for line in open(mtl)\<close>: the lines the loop sees. The argument is the text the
  file holds, which stands for the path in every reader below.
\<close>

definition readlines :: "string \<Rightarrow> string list" where
  "readlines mtl = split_lines (universal_newlines mtl)"

text \<open>\<^verbatim>\<open>value.replace('"', '')\<close>: every double quote (code point 0x22) is deleted.\<close>

definition replace_quote :: "string \<Rightarrow> string" where
  "replace_quote s = filter (\<lambda>c. c \<noteq> CHR 0x22) s"

section \<open>readMTLFile\<close>

text \<open>
  The body of the loop of \<^verbatim>\<open>readMTLFile\<close>, for one line and the dictionary built so far:
  \<^verbatim>\<open>
    arr = line.split('=')
    if len(arr) == 2:
        (key, value) = arr
        dict[key.strip()] = value.replace('"', '').strip()
  \<close>
\<close>

definition mtl_line :: "string \<Rightarrow> (string \<rightharpoonup> string) \<Rightarrow> (string \<rightharpoonup> string)" where
  "mtl_line line dict =
     (case py_split CHR ''='' line of
        [key, value] \<Rightarrow> dict(py_strip key \<mapsto> py_strip (replace_quote value))
      | _ \<Rightarrow> dict)"

definition readMTLFile :: "string \<Rightarrow> (string \<rightharpoonup> string)" where
  "readMTLFile mtl = fold mtl_line (readlines mtl) Map.empty"

text \<open>
  The entry a line contributes, written from the description of the parser rather than
  from its code: a line with exactly one \<open>=\<close> gives the pair of the text before it,
  stripped of whitespace, and the text after it, with every double quote deleted and then
  stripped of whitespace; any other line gives nothing.
\<close>

definition mtl_entry_spec :: "string \<Rightarrow> (string \<times> string) option" where
  "mtl_entry_spec line =
     (if count_list line CHR ''='' = 1
      then Some (py_strip (takeWhile (\<lambda>c. c \<noteq> CHR ''='') line),
                 py_strip (replace_quote (tl (dropWhile (\<lambda>c. c \<noteq> CHR ''='') line))))
      else None)"

section \<open>AngleConstantInfo\<close>

text \<open>
  \<^verbatim>\<open>class AngleConstantInfo(AnglesInfo)\<close>: four angles stored by the constructor.
  The angles it stores are idealised as real numbers; the class does no arithmetic on
  them.
\<close>

record AngleConstantInfo =
  solarZenithAngle :: real
  solarAzimuthAngle :: real
  viewZenithAngle :: real
  viewAzimuthAngle :: real

definition AngleConstantInfo_init :: "real \<Rightarrow> real \<Rightarrow> real \<Rightarrow> real \<Rightarrow> AngleConstantInfo" where
  "AngleConstantInfo_init sza saa vza vaa =
     \<lparr>solarZenithAngle = sza, solarAzimuthAngle = saa,
      viewZenithAngle = vza, viewAzimuthAngle = vaa\<rparr>"

definition const_getSolarZenithAngle :: "AngleConstantInfo \<Rightarrow> region \<Rightarrow> real" where
  "const_getSolarZenithAngle self indices = solarZenithAngle self"

definition const_getSolarAzimuthAngle :: "AngleConstantInfo \<Rightarrow> region \<Rightarrow> real" where
  "const_getSolarAzimuthAngle self indices = solarAzimuthAngle self"

definition const_getViewZenithAngle :: "AngleConstantInfo \<Rightarrow> region \<Rightarrow> real" where
  "const_getViewZenithAngle self indices = viewZenithAngle self"

definition const_getViewAzimuthAngle :: "AngleConstantInfo \<Rightarrow> region \<Rightarrow> real" where
  "const_getViewAzimuthAngle self indices = viewAzimuthAngle self"

section \<open>Dictionaries, float() and raising\<close>

text \<open>\<^verbatim>\<open>d[k]\<close> on a dictionary raises KeyError when the key is missing.\<close>

definition getitem :: "('k \<rightharpoonup> 'v) \<Rightarrow> 'k \<Rightarrow> error + 'v" where
  "getitem d k = (case d k of None \<Rightarrow> Inl KeyError | Some v \<Rightarrow> Inr v)"

text \<open>
  \<^verbatim>\<open>float(s)\<close> is Python's built-in and no code of this package, so the readers take
  it as the parameter \<open>pf\<close>: the number a text denotes, or \<open>None\<close> where \<^verbatim>\<open>float\<close>
  raises ValueError.
\<close>

definition py_float :: "(string \<Rightarrow> real option) \<Rightarrow> string \<Rightarrow> error + real" where
  "py_float pf s = (case pf s of None \<Rightarrow> Inl ValueError | Some x \<Rightarrow> Inr x)"

text \<open>Sequencing: an exception raised by the first step ends the function.\<close>

definition and_then :: "error + 'a \<Rightarrow> ('a \<Rightarrow> error + 'b) \<Rightarrow> error + 'b" where
  "and_then r f = (case r of Inl e \<Rightarrow> Inl e | Inr x \<Rightarrow> f x)"

text \<open>
  One instance of \<^verbatim>\<open>float\<close> for the concrete examples: plain decimal numbers, that
  is optional whitespace around an optional sign, digits, and an optional point with
  digits, at least one digit in all. This is how a .mtl file writes its numbers. The other
  texts Python accepts (an exponent, \<^verbatim>\<open>inf\<close>, \<^verbatim>\<open>nan\<close>, underscores) are not
  covered, and the examples use none of them.
\<close>

definition is_digit :: "char \<Rightarrow> bool" where
  "is_digit c = (c \<in> set ''0123456789'')"

definition digit_value :: "char \<Rightarrow> nat" where
  "digit_value c = of_char c - 48"

definition digits_value :: "string \<Rightarrow> nat" where
  "digits_value ds = foldl (\<lambda>n c. 10 * n + digit_value c) 0 ds"

definition decimal_float :: "string \<Rightarrow> real option" where
  "decimal_float s =
     (let t = py_strip s;
          neg = (case t of c # _ \<Rightarrow> c = CHR ''-'' | [] \<Rightarrow> False);
          u = (case t of c # r \<Rightarrow> (if c = CHR ''-'' \<or> c = CHR ''+'' then r else t) | [] \<Rightarrow> t);
          ip = takeWhile (\<lambda>c. c \<noteq> CHR ''.'') u;
          fp = (case dropWhile (\<lambda>c. c \<noteq> CHR ''.'') u of [] \<Rightarrow> [] | _ # r \<Rightarrow> r)
      in if (ip = [] \<and> fp = []) \<or> \<not> list_all is_digit ip \<or> \<not> list_all is_digit fp then None
         else Some ((if neg then - 1 else 1) *
                (real (digits_value ip) + real (digits_value fp) / 10 ^ length fp)))"

section \<open>ThermalFileInfo\<close>

text \<open>
  \<^verbatim>\<open>class ThermalFileInfo\<close>: the band index and four floats. The type \<open>'f\<close> is the
  type of the floats; the .mtl reader below fills it with the numbers it read.
\<close>

record 'f ThermalFileInfo =
  thermalBand1040um :: int
  thermalGain1040um :: 'f
  thermalOffset1040um :: 'f
  thermalK1_1040um :: 'f
  thermalK2_1040um :: 'f

definition ThermalFileInfo_init :: "int \<Rightarrow> 'f \<Rightarrow> 'f \<Rightarrow> 'f \<Rightarrow> 'f \<Rightarrow> 'f ThermalFileInfo" where
  "ThermalFileInfo_init band gain offset k1 k2 =
     \<lparr>thermalBand1040um = band, thermalGain1040um = gain, thermalOffset1040um = offset,
      thermalK1_1040um = k1, thermalK2_1040um = k2\<rparr>"

text \<open>\<^verbatim>\<open>scipy.constants.zero_Celsius\<close>.\<close>

definition KELVIN_ZERO_DEGC :: real where
  "KELVIN_ZERO_DEGC = 273.15"

text \<open>
  \<^verbatim>\<open>a[i]\<close> on the first axis of an array: a negative index counts from the end, an
  index outside \<open>-n \<le> i < n\<close> raises IndexError.
\<close>

definition py_index :: "'a list \<Rightarrow> int \<Rightarrow> error + 'a" where
  "py_index xs i =
     (if 0 \<le> i \<and> i < int (length xs) then Inr (xs ! nat i)
      else if - int (length xs) \<le> i \<and> i < 0 then Inr (xs ! nat (int (length xs) + i))
      else Inl IndexError)"

text \<open>
  The arithmetic of numpy's float64 arrays is no code of this package, and it is not the
  arithmetic of the real numbers: it rounds, and it has infinities and nan where a real
  operation is undefined. \<^verbatim>\<open>scaleThermalDNtoC\<close> therefore takes it as a parameter: the
  conversion \<^verbatim>\<open>astype(float)\<close> of a digital number of the input's element type
  \<open>'d\<close>, the float a decimal constant of the source denotes, the four operations, the
  comparison \<^verbatim>\<open><=\<close> and \<^verbatim>\<open>numpy.log\<close>, each on single elements.
\<close>

record ('d, 'f) numpy_arith =
  astype_float :: "'d \<Rightarrow> 'f"
  f_lit :: "real \<Rightarrow> 'f"
  f_mul :: "'f \<Rightarrow> 'f \<Rightarrow> 'f"
  f_add :: "'f \<Rightarrow> 'f \<Rightarrow> 'f"
  f_sub :: "'f \<Rightarrow> 'f \<Rightarrow> 'f"
  f_div :: "'f \<Rightarrow> 'f \<Rightarrow> 'f"
  f_le :: "'f \<Rightarrow> 'f \<Rightarrow> bool"
  f_log :: "'f \<Rightarrow> 'f"

text \<open>
  \<^verbatim>\<open>scaleThermalDNtoC\<close>. The stack \<^verbatim>\<open>scaledBT\<close> is a list of bands, each a 2-d array
  of digital numbers (rows of pixels). Each line of the source is one array operation,
  applied to every pixel:
  \<^verbatim>\<open>
    rad = (scaledBT[self.thermalBand1040um].astype(float) *
                self.thermalGain1040um + self.thermalOffset1040um)
    rad[rad <= 0] = 0.00001 # to stop errors below
    temp = self.thermalK2_1040um / numpy.log(self.thermalK1_1040um / rad + 1.0)
    bt = temp - KELVIN_ZERO_DEGC
  \<close>
\<close>

definition scaleThermalDNtoC ::
  "('d, 'f) numpy_arith \<Rightarrow> 'f ThermalFileInfo \<Rightarrow> 'd list list list \<Rightarrow> error + 'f list list" where
  "scaleThermalDNtoC np self scaledBT =
     and_then (py_index scaledBT (thermalBand1040um self)) (\<lambda>band.
       let rad = map (map (\<lambda>dn. f_add np (f_mul np (astype_float np dn) (thermalGain1040um self))
                                            (thermalOffset1040um self))) band;
           rad = map (map (\<lambda>r. if f_le np r (f_lit np 0) then f_lit np 0.00001 else r)) rad;
           temp = map (map (\<lambda>r. f_div np (thermalK2_1040um self)
                                    (f_log np (f_add np (f_div np (thermalK1_1040um self) r)
                                                        (f_lit np 1.0))))) rad;
           bt = map (map (\<lambda>t. f_sub np t (f_lit np KELVIN_ZERO_DEGC))) temp
       in Inr bt)"

section \<open>readThermalInfoFromLandsatMTL\<close>

text \<open>The key templates: \<^verbatim>\<open>'RADIANCE_MULT_BAND_%s' % band\<close> appends the band text.\<close>

definition LANDSAT_RADIANCE_MULT :: "string \<Rightarrow> string" where
  "LANDSAT_RADIANCE_MULT band = ''RADIANCE_MULT_BAND_'' @ band"

definition LANDSAT_RADIANCE_ADD :: "string \<Rightarrow> string" where
  "LANDSAT_RADIANCE_ADD band = ''RADIANCE_ADD_BAND_'' @ band"

definition LANDSAT_K1_CONST :: "string \<Rightarrow> string" where
  "LANDSAT_K1_CONST band = ''K1_CONSTANT_BAND_'' @ band"

definition LANDSAT_K2_CONST :: "string \<Rightarrow> string" where
  "LANDSAT_K2_CONST band = ''K2_CONSTANT_BAND_'' @ band"

definition LANDSAT_TH_BAND_NUM_DICT :: "string \<rightharpoonup> string" where
  "LANDSAT_TH_BAND_NUM_DICT =
     [''LANDSAT_4'' \<mapsto> ''6'', ''LANDSAT_5'' \<mapsto> ''6'',
      ''LANDSAT_7'' \<mapsto> ''6_VCID_1'', ''LANDSAT_8'' \<mapsto> ''10'']"

definition LANDSAT_K1_DICT :: "string \<rightharpoonup> real" where
  "LANDSAT_K1_DICT = [''TM'' \<mapsto> 607.76, ''ETM'' \<mapsto> 666.09]"

definition LANDSAT_K2_DICT :: "string \<rightharpoonup> real" where
  "LANDSAT_K2_DICT = [''TM'' \<mapsto> 1260.56, ''ETM'' \<mapsto> 1282.71]"

text \<open>
  The first block of \<^verbatim>\<open>readThermalInfoFromLandsatMTL\<close>, run on the dictionary that
  \<^verbatim>\<open>readMTLFile\<close> returned. It gives the local variables \<^verbatim>\<open>band\<close>, \<^verbatim>\<open>gain\<close>
  and \<^verbatim>\<open>offset\<close> as they stand after the block. \<^verbatim>\<open>gain\<close> and \<^verbatim>\<open>offset\<close> start
  as Python's \<^verbatim>\<open>None\<close>; \<^verbatim>\<open>band\<close> is assigned nowhere else, so outside the block it
  is an unbound name, here \<open>None\<close> too.
  \<^verbatim>\<open>
    if 'SPACECRAFT_ID' in mtlData:
        spaceCraft = mtlData['SPACECRAFT_ID']
        band = LANDSAT_TH_BAND_NUM_DICT[spaceCraft]
        s = LANDSAT_RADIANCE_MULT % band
        gain = float(mtlData[s])
        s = LANDSAT_RADIANCE_ADD % band
        offset = float(mtlData[s])
  \<close>
\<close>

definition thermal_spacecraft_block ::
  "(string \<Rightarrow> real option) \<Rightarrow> (string \<rightharpoonup> string)
     \<Rightarrow> error + (string option \<times> real option \<times> real option)" where
  "thermal_spacecraft_block pf mtlData =
     (case mtlData ''SPACECRAFT_ID'' of
        None \<Rightarrow> Inr (None, None, None)
      | Some spaceCraft \<Rightarrow>
          and_then (getitem LANDSAT_TH_BAND_NUM_DICT spaceCraft) (\<lambda>band.
          and_then (getitem mtlData (LANDSAT_RADIANCE_MULT band)) (\<lambda>s.
          and_then (py_float pf s) (\<lambda>gain.
          and_then (getitem mtlData (LANDSAT_RADIANCE_ADD band)) (\<lambda>s.
          and_then (py_float pf s) (\<lambda>offset.
          Inr (Some band, Some gain, Some offset)))))))"

text \<open>
  The second block, giving \<^verbatim>\<open>k1\<close> and \<^verbatim>\<open>k2\<close>. Reading the unbound \<^verbatim>\<open>band\<close>
  raises UnboundLocalError. Both fallbacks read \<^verbatim>\<open>LANDSAT_K1_DICT\<close>, as the source does.
  \<^verbatim>\<open>
    if 'SENSOR_ID' in mtlData:
        sensor = mtlData['SENSOR_ID']
        s = LANDSAT_K1_CONST % band
        if s in mtlData:
            k1 = float(mtlData[s])
        else:
            k1 = LANDSAT_K1_DICT[sensor]
        s = LANDSAT_K2_CONST % band
        if s in mtlData:
            k2 = float(mtlData[s])
        else:
            k2 = LANDSAT_K1_DICT[sensor]
  \<close>
\<close>

definition thermal_sensor_block ::
  "(string \<Rightarrow> real option) \<Rightarrow> (string \<rightharpoonup> string) \<Rightarrow> string option
     \<Rightarrow> error + (real option \<times> real option)" where
  "thermal_sensor_block pf mtlData band_var =
     (case mtlData ''SENSOR_ID'' of
        None \<Rightarrow> Inr (None, None)
      | Some sensor \<Rightarrow>
          (case band_var of
             None \<Rightarrow> Inl UnboundLocalError
           | Some band \<Rightarrow>
               and_then (case mtlData (LANDSAT_K1_CONST band) of
                           Some v \<Rightarrow> py_float pf v
                         | None \<Rightarrow> getitem LANDSAT_K1_DICT sensor) (\<lambda>k1.
               and_then (case mtlData (LANDSAT_K2_CONST band) of
                           Some v \<Rightarrow> py_float pf v
                         | None \<Rightarrow> getitem LANDSAT_K1_DICT sensor) (\<lambda>k2.
               Inr (Some k1, Some k2)))))"

text \<open>
  The whole body after \<^verbatim>\<open>mtlData = readMTLFile(mtlfile)\<close>: the two blocks, then
  \<^verbatim>\<open>
    if gain is not None and offset is not None and k1 is not None and k2 is not None:
        thermalInfo = ThermalFileInfo(thermalBand1040um, gain, offset, k1, k2)
    else:
        raise fmaskerrors.FmaskFileError(msg)
    return thermalInfo
  \<close>
\<close>

definition thermalInfoFromMTL ::
  "(string \<Rightarrow> real option) \<Rightarrow> (string \<rightharpoonup> string) \<Rightarrow> int \<Rightarrow> error + real ThermalFileInfo" where
  "thermalInfoFromMTL pf mtlData thermalBand =
     and_then (thermal_spacecraft_block pf mtlData) (\<lambda>(band_var, gain, offset).
     and_then (thermal_sensor_block pf mtlData band_var) (\<lambda>(k1, k2).
       (case (gain, offset, k1, k2) of
          (Some g, Some off, Some c1, Some c2) \<Rightarrow>
             Inr (ThermalFileInfo_init thermalBand g off c1 c2)
        | _ \<Rightarrow> Inl FmaskFileError)))"

definition readThermalInfoFromLandsatMTL ::
  "(string \<Rightarrow> real option) \<Rightarrow> string \<Rightarrow> int \<Rightarrow> error + real ThermalFileInfo" where
  "readThermalInfoFromLandsatMTL pf mtlfile thermalBand =
     thermalInfoFromMTL pf (readMTLFile mtlfile) thermalBand"

section \<open>readAnglesFromLandsatMTL\<close>

text \<open>\<^verbatim>\<open>numpy.radians\<close>: degrees to radians.\<close>

definition radians :: "real \<Rightarrow> real" where
  "radians x = x * pi / 180"



section \<open>AnglesFileInfo\<close>

text \<open>
  An instance attribute that holds data once it is read: it can hold Python's
  \<^verbatim>\<open>None\<close>, hold a value, or have been removed by \<^verbatim>\<open>del\<close>.
\<close>

datatype 'a attribute = Deleted | PyNone | Value 'a

text \<open>A band read by \<^verbatim>\<open>ReadAsArray\<close>: a 2-d array, as rows of pixels.\<close>

type_synonym raster = "real list list"

text \<open>
  The raster files \<^verbatim>\<open>gdal.Open\<close> can open, by name, each with its bands in the
  driver's order (band 1 first). \<^verbatim>\<open>gdal.Open\<close> returns \<^verbatim>\<open>None\<close> for any other name,
  and \<^verbatim>\<open>GetRasterBand\<close> returns \<^verbatim>\<open>None\<close> for a band number the file does not have.
\<close>

type_synonym gdal_files = "string \<rightharpoonup> raster list"

text \<open>
  Python is dynamically typed: the second argument of \<^verbatim>\<open>readData\<close> is whatever the
  caller passes, an integer or a text.
\<close>

datatype pyval = PyInt int | PyStr string

record AnglesFileInfo =
  solarZenithFilename :: string
  solarZenithBand :: int
  solarAzimuthFilename :: string
  solarAzimuthBand :: int
  viewZenithFilename :: string
  viewZenithBand :: int
  viewAzimuthFilename :: string
  viewAzimuthBand :: int
  solarZenithData :: "raster attribute"
  solarAzimuthData :: "raster attribute"
  viewZenithData :: "raster attribute"
  viewAzimuthData :: "raster attribute"

definition AnglesFileInfo_init ::
  "string \<Rightarrow> int \<Rightarrow> string \<Rightarrow> int \<Rightarrow> string \<Rightarrow> int \<Rightarrow> string \<Rightarrow> int \<Rightarrow> AnglesFileInfo" where
  "AnglesFileInfo_init szf szb saf sab vzf vzb vaf vab =
     \<lparr>solarZenithFilename = szf, solarZenithBand = szb,
      solarAzimuthFilename = saf, solarAzimuthBand = sab,
      viewZenithFilename = vzf, viewZenithBand = vzb,
      viewAzimuthFilename = vaf, viewAzimuthBand = vab,
      solarZenithData = PyNone, solarAzimuthData = PyNone,
      viewZenithData = PyNone, viewAzimuthData = PyNone\<rparr>"

text \<open>
  \<^verbatim>\<open>
    def readData(filename, bandNum):
        ds = gdal.Open(filename)
        band = ds.GetRasterBand(bandNum + 1)
        data = band.ReadAsArray()
        del ds
        return data
  \<close>
  \<^verbatim>\<open>ds.GetRasterBand\<close> on \<^verbatim>\<open>None\<close> raises AttributeError before the argument is
  evaluated; \<^verbatim>\<open>bandNum + 1\<close> on a text raises TypeError; \<^verbatim>\<open>band.ReadAsArray\<close> on
  \<^verbatim>\<open>None\<close> raises AttributeError.
\<close>

definition readData :: "gdal_files \<Rightarrow> string \<Rightarrow> pyval \<Rightarrow> error + raster" where
  "readData files filename bandNum =
     (case files filename of
        None \<Rightarrow> Inl AttributeError
      | Some ds \<Rightarrow>
          and_then (case bandNum of PyInt n \<Rightarrow> Inr (n + 1) | PyStr _ \<Rightarrow> Inl TypeError) (\<lambda>num.
            if 1 \<le> num \<and> num \<le> int (length ds) then Inr (ds ! nat (num - 1))
            else Inl AttributeError))"

text \<open>
  \<^verbatim>\<open>prepareForQuerying\<close> assigns the four buffers in turn; each call passes the file
  name in both argument places, as the source does:
  \<^verbatim>\<open>
    self.solarZenithData = self.readData(self.solarZenithFilename,
                            self.solarZenithFilename)
  \<close>
  The result is the exception that ended the method, if any, and the object as the method
  left it.
\<close>

definition prepareForQuerying :: "gdal_files \<Rightarrow> AnglesFileInfo \<Rightarrow> error option \<times> AnglesFileInfo" where
  "prepareForQuerying files self =
     (case readData files (solarZenithFilename self) (PyStr (solarZenithFilename self)) of
        Inl e \<Rightarrow> (Some e, self)
      | Inr d1 \<Rightarrow>
     (case readData files (solarAzimuthFilename self) (PyStr (solarAzimuthFilename self)) of
        Inl e \<Rightarrow> (Some e, self\<lparr>solarZenithData := Value d1\<rparr>)
      | Inr d2 \<Rightarrow>
     (case readData files (viewZenithFilename self) (PyStr (viewZenithFilename self)) of
        Inl e \<Rightarrow> (Some e, self\<lparr>solarZenithData := Value d1, solarAzimuthData := Value d2\<rparr>)
      | Inr d3 \<Rightarrow>
     (case readData files (viewAzimuthFilename self) (PyStr (viewAzimuthFilename self)) of
        Inl e \<Rightarrow> (Some e, self\<lparr>solarZenithData := Value d1, solarAzimuthData := Value d2,
                                viewZenithData := Value d3\<rparr>)
      | Inr d4 \<Rightarrow>
          (None, self\<lparr>solarZenithData := Value d1, solarAzimuthData := Value d2,
                       viewZenithData := Value d3, viewAzimuthData := Value d4\<rparr>)))))"

text \<open>
  The prepareForQuerying the constructor's arguments describe, written from the description
  of the class and not from its code: each buffer is read from its file at its own band
  index. It is here only to be compared with the method above.
\<close>

definition prepareForQuerying_spec :: "gdal_files \<Rightarrow> AnglesFileInfo \<Rightarrow> error option \<times> AnglesFileInfo" where
  "prepareForQuerying_spec files self =
     (case readData files (solarZenithFilename self) (PyInt (solarZenithBand self)) of
        Inl e \<Rightarrow> (Some e, self)
      | Inr d1 \<Rightarrow>
     (case readData files (solarAzimuthFilename self) (PyInt (solarAzimuthBand self)) of
        Inl e \<Rightarrow> (Some e, self\<lparr>solarZenithData := Value d1\<rparr>)
      | Inr d2 \<Rightarrow>
     (case readData files (viewZenithFilename self) (PyInt (viewZenithBand self)) of
        Inl e \<Rightarrow> (Some e, self\<lparr>solarZenithData := Value d1, solarAzimuthData := Value d2\<rparr>)
      | Inr d3 \<Rightarrow>
     (case readData files (viewAzimuthFilename self) (PyInt (viewAzimuthBand self)) of
        Inl e \<Rightarrow> (Some e, self\<lparr>solarZenithData := Value d1, solarAzimuthData := Value d2,
                                viewZenithData := Value d3\<rparr>)
      | Inr d4 \<Rightarrow>
          (None, self\<lparr>solarZenithData := Value d1, solarAzimuthData := Value d2,
                       viewZenithData := Value d3, viewAzimuthData := Value d4\<rparr>)))))"

text \<open>
  The result of a numpy mean: a number, or \<^verbatim>\<open>nan\<close> for the mean of no values.
\<close>

datatype npfloat = Num real | NaN

text \<open>
  \<^verbatim>\<open>data[indices].mean()\<close> on a loaded buffer: the pixels of the region are selected
  (IndexError when one lies outside the array) and averaged.
\<close>

definition region_mean :: "raster \<Rightarrow> region \<Rightarrow> error + npfloat" where
  "region_mean data indices =
     (if list_all (\<lambda>(r, c). r < length data \<and> c < length (data ! r)) indices
      then (if indices = [] then Inr NaN
            else Inr (Num (sum_list (map (\<lambda>(r, c). data ! r ! c) indices)
                           / real (length indices))))
      else Inl IndexError)"

text \<open>
  \<^verbatim>\<open>self.solarZenithData[indices]\<close>: reading a removed attribute raises
  AttributeError, subscripting \<^verbatim>\<open>None\<close> raises TypeError.
\<close>

definition buffer_mean :: "raster attribute \<Rightarrow> region \<Rightarrow> error + npfloat" where
  "buffer_mean buf indices =
     (case buf of
        Deleted \<Rightarrow> Inl AttributeError
      | PyNone \<Rightarrow> Inl TypeError
      | Value data \<Rightarrow> region_mean data indices)"

definition file_getSolarZenithAngle :: "AnglesFileInfo \<Rightarrow> region \<Rightarrow> error + npfloat" where
  "file_getSolarZenithAngle self indices = buffer_mean (solarZenithData self) indices"

definition file_getSolarAzimuthAngle :: "AnglesFileInfo \<Rightarrow> region \<Rightarrow> error + npfloat" where
  "file_getSolarAzimuthAngle self indices = buffer_mean (solarAzimuthData self) indices"

definition file_getViewZenithAngle :: "AnglesFileInfo \<Rightarrow> region \<Rightarrow> error + npfloat" where
  "file_getViewZenithAngle self indices = buffer_mean (viewZenithData self) indices"

definition file_getViewAzimuthAngle :: "AnglesFileInfo \<Rightarrow> region \<Rightarrow> error + npfloat" where
  "file_getViewAzimuthAngle self indices = buffer_mean (viewAzimuthData self) indices"

text \<open>
  \<^verbatim>\<open>releaseMemory\<close> removes the four attributes with \<^verbatim>\<open>del\<close>, in turn; \<^verbatim>\<open>del\<close> of
  an attribute already removed raises AttributeError.
\<close>

definition releaseMemory :: "AnglesFileInfo \<Rightarrow> error option \<times> AnglesFileInfo" where
  "releaseMemory self =
     (if solarZenithData self = Deleted then (Some AttributeError, self)
      else if solarAzimuthData self = Deleted
        then (Some AttributeError, self\<lparr>solarZenithData := Deleted\<rparr>)
      else if viewZenithData self = Deleted
        then (Some AttributeError, self\<lparr>solarZenithData := Deleted, solarAzimuthData := Deleted\<rparr>)
      else if viewAzimuthData self = Deleted
        then (Some AttributeError, self\<lparr>solarZenithData := Deleted, solarAzimuthData := Deleted,
                                         viewZenithData := Deleted\<rparr>)
      else (None, self\<lparr>solarZenithData := Deleted, solarAzimuthData := Deleted,
                        viewZenithData := Deleted, viewAzimuthData := Deleted\<rparr>))"

section \<open>FmaskConfig\<close>

datatype AnglesInfo = FileAngles AnglesFileInfo | ConstantAngles AngleConstantInfo

definition FMASK_LANDSAT47 :: int where "FMASK_LANDSAT47 = 0"
definition FMASK_LANDSAT8 :: int where "FMASK_LANDSAT8 = 1"
definition FMASK_SENTINEL2 :: int where "FMASK_SENTINEL2 = 2"

definition BAND_BLUE :: int where "BAND_BLUE = 0"
definition BAND_GREEN :: int where "BAND_GREEN = 1"
definition BAND_RED :: int where "BAND_RED = 2"
definition BAND_NIR :: int where "BAND_NIR = 3"
definition BAND_CIRRUS :: int where "BAND_CIRRUS = 4"
definition BAND_SWIR1 :: int where "BAND_SWIR1 = 5"
definition BAND_SWIR2 :: int where "BAND_SWIR2 = 6"

record FmaskConfig =
  sensor :: int
  bands :: "int \<rightharpoonup> int"
  thermalInfo :: "real ThermalFileInfo option"
  anglesInfo :: "AnglesInfo option"
  defaultExtension :: string
  keepIntermediates :: bool
  cloudBufferSize :: int
  shadowBufferSize :: int
  verbose :: bool
  strictFmask :: bool
  tempDir :: string

text \<open>
  The band table \<^verbatim>\<open>__init__\<close> chooses for a sensor; any sensor other than the three
  constants raises FmaskParameterError.
\<close>

definition default_bands :: "int \<Rightarrow> error + (int \<rightharpoonup> int)" where
  "default_bands sensor_arg =
     (if sensor_arg = FMASK_LANDSAT47 then
        Inr [BAND_BLUE \<mapsto> 0, BAND_GREEN \<mapsto> 1, BAND_RED \<mapsto> 2, BAND_NIR \<mapsto> 3,
             BAND_SWIR1 \<mapsto> 4, BAND_SWIR2 \<mapsto> 5]
      else if sensor_arg = FMASK_LANDSAT8 then
        Inr [BAND_BLUE \<mapsto> 1, BAND_GREEN \<mapsto> 2, BAND_RED \<mapsto> 3, BAND_NIR \<mapsto> 4,
             BAND_SWIR1 \<mapsto> 5, BAND_SWIR2 \<mapsto> 6, BAND_CIRRUS \<mapsto> 7]
      else if sensor_arg = FMASK_SENTINEL2 then
        Inr [BAND_BLUE \<mapsto> 1, BAND_GREEN \<mapsto> 2, BAND_RED \<mapsto> 3, BAND_NIR \<mapsto> 6,
             BAND_SWIR1 \<mapsto> 10, BAND_SWIR2 \<mapsto> 11, BAND_CIRRUS \<mapsto> 9]
      else Inl FmaskParameterError)"

text \<open>
  \<^verbatim>\<open>FmaskConfig.__init__\<close>. The raster library is outside the package, so what
  \<^verbatim>\<open>gdal.GetDriverByName(applier.DEFAULTDRIVERNAME)\<close> finds is the parameter
  \<open>driver\<close>: \<open>None\<close> when there is no such driver, otherwise the driver's
  \<^verbatim>\<open>DMD_EXTENSION\<close> item, itself \<open>None\<close> when the driver has none.
\<close>

definition FmaskConfig_init :: "int \<Rightarrow> string option option \<Rightarrow> error + FmaskConfig" where
  "FmaskConfig_init sensor_arg driver =
     and_then (default_bands sensor_arg) (\<lambda>table.
       (case driver of
          None \<Rightarrow> Inl FmaskParameterError
        | Some ext \<Rightarrow>
            Inr \<lparr>sensor = sensor_arg, bands = table, thermalInfo = None, anglesInfo = None,
                 defaultExtension = (case ext of None \<Rightarrow> ''.tmp'' | Some e \<Rightarrow> ''.'' @ e),
                 keepIntermediates = False, cloudBufferSize = 5, shadowBufferSize = 10,
                 verbose = False, strictFmask = False, tempDir = ''.''\<rparr>))"

text \<open>\<^verbatim>\<open>setReflectiveBand\<close>: \<^verbatim>\<open>self.bands[band] = index\<close>, and nothing else.\<close>

definition setReflectiveBand :: "FmaskConfig \<Rightarrow> int \<Rightarrow> int \<Rightarrow> FmaskConfig" where
  "setReflectiveBand self band index = self\<lparr>bands := (bands self)(band \<mapsto> index)\<rparr>"

section \<open>getMeanSunAngles\<close>

text \<open>
  The part of a parsed XML document that the script reads: elements with a tag and child
  nodes, and text nodes. A document is the list of its top-level nodes.
\<close>

datatype xmlnode = Element string "xmlnode list" | Text string

definition childNodes :: "xmlnode \<Rightarrow> xmlnode list" where
  "childNodes n = (case n of Element _ cs \<Rightarrow> cs | Text _ \<Rightarrow> [])"

text \<open>
  \<^verbatim>\<open>getElementsByTagName\<close> of minidom, on the child nodes of the node it is called on:
  every descendant element with the tag (or any element for \<^verbatim>\<open>*\<close>), in document order.
\<close>

fun getElementsByTagName :: "string \<Rightarrow> xmlnode list \<Rightarrow> xmlnode list" where
  "getElementsByTagName name [] = []"
| "getElementsByTagName name (Text t # rest) = getElementsByTagName name rest"
| "getElementsByTagName name (Element tag cs # rest) =
     (if name = ''*'' \<or> tag = name then [Element tag cs] else [])
       @ getElementsByTagName name cs @ getElementsByTagName name rest"

text \<open>
  \<^verbatim>\<open>node.firstChild.data\<close>: \<^verbatim>\<open>firstChild\<close> is \<^verbatim>\<open>None\<close> for a node without
  children, and an element has no attribute \<^verbatim>\<open>data\<close>; both raise AttributeError.
\<close>

definition firstChild_data :: "xmlnode \<Rightarrow> error + string" where
  "firstChild_data n =
     (case childNodes n of
        [] \<Rightarrow> Inl AttributeError
      | Text t # _ \<Rightarrow> Inr t
      | Element _ _ # _ \<Rightarrow> Inl AttributeError)"

text \<open>
  \<^verbatim>\<open>
    xmldoc = minidom.parse(xmlFile)
    itemList = xmldoc.getElementsByTagName('Mean_Sun_Angle')
    zenList = itemList[0].getElementsByTagName('ZENITH_ANGLE')
    zenith = float(zenList[0].firstChild.data)
    aziList = itemList[0].getElementsByTagName('AZIMUTH_ANGLE')
    azimuth = float(aziList[0].firstChild.data)
    return config.AngleConstantInfo(zenith, azimuth, 0, 0)
  \<close>
  The argument is the parsed document.
\<close>

definition getMeanSunAngles ::
  "(string \<Rightarrow> real option) \<Rightarrow> xmlnode list \<Rightarrow> error + AngleConstantInfo" where
  "getMeanSunAngles pf xmldoc =
     and_then (py_index (getElementsByTagName ''Mean_Sun_Angle'' xmldoc) 0) (\<lambda>item.
     and_then (py_index (getElementsByTagName ''ZENITH_ANGLE'' (childNodes item)) 0) (\<lambda>zen.
     and_then (firstChild_data zen) (\<lambda>zs.
     and_then (py_float pf zs) (\<lambda>zenith.
     and_then (py_index (getElementsByTagName ''AZIMUTH_ANGLE'' (childNodes item)) 0) (\<lambda>azi.
     and_then (firstChild_data azi) (\<lambda>as.
     and_then (py_float pf as) (\<lambda>azimuth.
       Inr (AngleConstantInfo_init zenith azimuth 0 0))))))))"

section \<open>Example inputs\<close>

text \<open>
  A Landsat 5 .mtl file without the K1 and K2 constants, as the older products are:
  \<^verbatim>\<open>
    SPACECRAFT_ID = "LANDSAT_5"
    SENSOR_ID = "TM"
    RADIANCE_MULT_BAND_6 = 0.055
    RADIANCE_ADD_BAND_6 = 1.18
  \<close>
\<close>

definition example_tm_mtl :: string where
  "example_tm_mtl =
     ''SPACECRAFT_ID = '' @ [CHR 0x22] @ ''LANDSAT_5'' @ [CHR 0x22, CHR 0x0A]
     @ ''SENSOR_ID = '' @ [CHR 0x22] @ ''TM'' @ [CHR 0x22, CHR 0x0A]
     @ ''RADIANCE_MULT_BAND_6 = 0.055'' @ [CHR 0x0A]
     @ ''RADIANCE_ADD_BAND_6 = 1.18'' @ [CHR 0x0A]"

text \<open>A file with the one line \<^verbatim>\<open>SENSOR_ID = "TM"\<close>.\<close>

definition example_sensor_only_mtl :: string where
  "example_sensor_only_mtl = ''SENSOR_ID = '' @ [CHR 0x22] @ ''TM'' @ [CHR 0x22, CHR 0x0A]"


text \<open>Four one-band, one-pixel angle files, and an AnglesFileInfo that names band 0 of each.\<close>

definition example_angle_files :: gdal_files where
  "example_angle_files =
     [''sz.tif'' \<mapsto> [[[0.5]]], ''sa.tif'' \<mapsto> [[[2.5]]],
      ''vz.tif'' \<mapsto> [[[0.1]]], ''va.tif'' \<mapsto> [[[1.5]]]]"

definition example_angles :: AnglesFileInfo where
  "example_angles = AnglesFileInfo_init ''sz.tif'' 0 ''sa.tif'' 0 ''vz.tif'' 0 ''va.tif'' 0"

text \<open>
  A granule document whose first \<^verbatim>\<open>Mean_Sun_Angle\<close> element gives a zenith of 45.0 and
  an azimuth of 180.0, in degrees as the format has them.
\<close>

definition example_granule :: "xmlnode list" where
  "example_granule =
     [Element ''Level-1C_Tile_ID''
        [Element ''Geometric_Info''
           [Element ''Tile_Angles''
              [Element ''Sun_Angles_Grid'' [],
               Element ''Mean_Sun_Angle''
                 [Element ''ZENITH_ANGLE'' [Text ''45.0''],
                  Element ''AZIMUTH_ANGLE'' [Text ''180.0'']]]]]]"

text \<open>
  An arithmetic for the example of the thermal conversion: integer digital numbers and the
  exact operations of the real numbers. It is one arithmetic among those the conversion is
  proved for, and it is not float64.
\<close>

definition exact_arith :: "(int, real) numpy_arith" where
  "exact_arith =
     \<lparr>astype_float = real_of_int, f_lit = (\<lambda>x. x), f_mul = (\<lambda>x y. x * y),
      f_add = (\<lambda>x y. x + y), f_sub = (\<lambda>x y. x - y), f_div = (\<lambda>x y. x / y),
      f_le = (\<lambda>x y. x \<le> y), f_log = ln\<rparr>"

section \<open>Theorems\<close>

subsection \<open>The MTL reader\<close>

lemma py_split_not_Nil: "py_split sep s \<noteq> []"
  by (induction s) (auto split: list.splits)

lemma length_py_split: "length (py_split sep s) = Suc (count_list s sep)"
  by (induction s) (auto split: list.splits simp: py_split_not_Nil)

lemma py_split_no_sep: "count_list s sep = 0 \<Longrightarrow> py_split sep s = [s]"
  by (induction s) (auto split: list.splits if_splits)

lemma py_split_one_sep:
  "count_list s sep = 1 \<Longrightarrow>
   py_split sep s = [takeWhile (\<lambda>c. c \<noteq> sep) s, tl (dropWhile (\<lambda>c. c \<noteq> sep) s)]"
  by (induction s) (auto split: list.splits if_splits simp: py_split_no_sep)

lemma mtl_line_spec:
  "mtl_line line dict =
     (case mtl_entry_spec line of None \<Rightarrow> dict | Some (k, v) \<Rightarrow> dict(k \<mapsto> v))"
proof (cases "count_list line CHR ''='' = 1")
  case True
  then show ?thesis
    by (simp add: mtl_line_def mtl_entry_spec_def py_split_one_sep)
next
  case False
  then have "length (py_split CHR ''='' line) \<noteq> 2"
    by (simp add: length_py_split)
  then have "(case py_split CHR ''='' line of
        [key, value] \<Rightarrow> dict(py_strip key \<mapsto> py_strip (replace_quote value))
      | _ \<Rightarrow> dict) = dict"
    by (auto split: list.splits)
  with False show ?thesis
    by (simp add: mtl_line_def mtl_entry_spec_def)
qed

lemma fold_mtl_line:
  "fold mtl_line ls dict = dict ++ map_of (rev (List.map_filter mtl_entry_spec ls))"
proof (induction ls arbitrary: dict)
  case Nil
  then show ?case by simp
next
  case (Cons l ls)
  have step: "fold mtl_line (l # ls) dict =
      mtl_line l dict ++ map_of (rev (List.map_filter mtl_entry_spec ls))"
    using Cons.IH [of "mtl_line l dict"] by simp
  show ?case
  proof (cases "mtl_entry_spec l")
    case None
    then have "mtl_line l dict = dict"
      by (simp add: mtl_line_spec)
    with None step show ?thesis
      by simp
  next
    case (Some kv)
    obtain k v where kv: "kv = (k, v)" by (cases kv)
    from Some kv have upd: "mtl_line l dict = dict(k \<mapsto> v)"
      by (simp add: mtl_line_spec)
    have assoc: "dict(k \<mapsto> v) ++ m = dict ++ ([k \<mapsto> v] ++ m)" for m
      by (rule ext) (simp add: map_add_def split: option.splits)
    have "List.map_filter mtl_entry_spec (l # ls) = (k, v) # List.map_filter mtl_entry_spec ls"
      using Some kv by simp
    then have "map_of (rev (List.map_filter mtl_entry_spec (l # ls))) =
        [k \<mapsto> v] ++ map_of (rev (List.map_filter mtl_entry_spec ls))"
      by (simp only: rev.simps map_of_append map_of.simps fst_conv snd_conv)
    with step upd assoc show ?thesis
      by (simp only:)
  qed
qed

text \<open>
  C5, as the code has it. The dictionary the loop builds from any list of lines, and so
  the dictionary \<^verbatim>\<open>readMTLFile\<close> returns for a file, holds exactly the entries of the
  lines with one \<open>=\<close>: the key is the text before the \<open>=\<close> stripped of whitespace
  (quote characters stay), the value is the text after it with every double quote deleted
  and then stripped of whitespace. A line with no \<open>=\<close> or with several, a blank line
  among them, gives no entry. Looking a key up finds the entry of the last line that has
  it: \<open>map_of\<close> takes the first pair of the reversed list.
\<close>

theorem readMTLFile_entries:
  "fold mtl_line lines Map.empty = map_of (rev (List.map_filter mtl_entry_spec lines))
   \<and> readMTLFile mtl = map_of (rev (List.map_filter mtl_entry_spec (readlines mtl)))"
  by (simp add: readMTLFile_def fold_mtl_line)

text \<open>
  C5 as stated fails on a quoted key. The one-line file \<^verbatim>\<open>"FOO" = "bar"\<close> has no entry
  under \<open>FOO\<close>: its entry is under the key with both quote characters kept.
\<close>

theorem readMTLFile_quoted_key_counterexample:
  "readMTLFile ([CHR 0x22] @ ''FOO'' @ [CHR 0x22] @ '' = '' @ [CHR 0x22] @ ''bar''
       @ [CHR 0x22, CHR 0x0A]) ''FOO'' = None
   \<and> readMTLFile ([CHR 0x22] @ ''FOO'' @ [CHR 0x22] @ '' = '' @ [CHR 0x22] @ ''bar''
       @ [CHR 0x22, CHR 0x0A]) ([CHR 0x22] @ ''FOO'' @ [CHR 0x22]) = Some ''bar''"
  by (simp add: readMTLFile_def readlines_def mtl_line_def py_strip_def replace_quote_def
      py_isspace_def)

text \<open>
  Line ends: a carriage return alone, and a carriage return with a line feed, end a line
  as a line feed does.
\<close>

lemma readMTLFile_carriage_returns:
  "readMTLFile (''A = 1'' @ [CHR 0x0D] @ ''B = 2'' @ [CHR 0x0A]) = [''A'' \<mapsto> ''1'', ''B'' \<mapsto> ''2'']"
  "readMTLFile (''A = 1'' @ [CHR 0x0D, CHR 0x0A] @ ''B = 2'' @ [CHR 0x0D, CHR 0x0A])
     = [''A'' \<mapsto> ''1'', ''B'' \<mapsto> ''2'']"
  by (simp_all add: readMTLFile_def readlines_def mtl_line_def py_strip_def replace_quote_def
      py_isspace_def)

subsection \<open>Evaluating the examples\<close>

lemmas float_eval = decimal_float_def py_strip_def py_isspace_def is_digit_def
  digits_value_def digit_value_def

lemmas mtl_eval = readMTLFile_def readlines_def mtl_line_def py_strip_def replace_quote_def
  py_isspace_def

lemmas band_defs = BAND_BLUE_def BAND_GREEN_def BAND_RED_def BAND_NIR_def BAND_CIRRUS_def
  BAND_SWIR1_def BAND_SWIR2_def

lemma example_tm_mtl_read:
  "readMTLFile example_tm_mtl =
     [''SPACECRAFT_ID'' \<mapsto> ''LANDSAT_5'', ''SENSOR_ID'' \<mapsto> ''TM'',
      ''RADIANCE_MULT_BAND_6'' \<mapsto> ''0.055'', ''RADIANCE_ADD_BAND_6'' \<mapsto> ''1.18'']"
  by (simp add: example_tm_mtl_def mtl_eval)

lemma example_sensor_only_mtl_read:
  "readMTLFile example_sensor_only_mtl = [''SENSOR_ID'' \<mapsto> ''TM'']"
  by (simp add: example_sensor_only_mtl_def mtl_eval)







subsection \<open>The Landsat thermal reader\<close>

lemma thermal_K2_is_K1_table_entry:
  "thermalInfoFromMTL pf m tb = Inr info \<Longrightarrow> m ''SPACECRAFT_ID'' = Some sc \<Longrightarrow>
   LANDSAT_TH_BAND_NUM_DICT sc = Some b \<Longrightarrow> m (LANDSAT_K2_CONST b) = None \<Longrightarrow>
   m ''SENSOR_ID'' = Some sn \<Longrightarrow> LANDSAT_K1_DICT sn = Some (thermalK2_1040um info)"
  by (auto simp: thermalInfoFromMTL_def thermal_spacecraft_block_def thermal_sensor_block_def
      and_then_def getitem_def py_float_def ThermalFileInfo_init_def
      split: option.splits sum.splits)

lemma thermal_sensor_without_spacecraft:
  "m ''SPACECRAFT_ID'' = None \<Longrightarrow> m ''SENSOR_ID'' = Some sn \<Longrightarrow>
   thermalInfoFromMTL pf m tb = Inl UnboundLocalError"
  by (simp add: thermalInfoFromMTL_def thermal_spacecraft_block_def thermal_sensor_block_def
      and_then_def)

text \<open>
  C2, on the code. For the Landsat 5 file \<open>example_tm_mtl\<close>, which has no
  \<^verbatim>\<open>K2_CONSTANT_BAND_6\<close> line, \<^verbatim>\<open>readThermalInfoFromLandsatMTL\<close> returns a
  ThermalFileInfo whose K2 is 607.76, the K1 constant of the TM sensor, and not the 1260.56
  that \<^verbatim>\<open>LANDSAT_K2_DICT\<close> holds for TM.
\<close>

theorem thermal_K2_fallback_reads_K1_table:
  "readThermalInfoFromLandsatMTL decimal_float example_tm_mtl 0
     = Inr (ThermalFileInfo_init 0 0.055 1.18 607.76 607.76)
   \<and> LANDSAT_K2_DICT ''TM'' = Some 1260.56"
proof -
  have "readThermalInfoFromLandsatMTL decimal_float example_tm_mtl 0
     = Inr (ThermalFileInfo_init 0 0.055 1.18 607.76 607.76)"
    by (simp add: readThermalInfoFromLandsatMTL_def example_tm_mtl_read thermalInfoFromMTL_def
        thermal_spacecraft_block_def thermal_sensor_block_def and_then_def getitem_def
        py_float_def LANDSAT_TH_BAND_NUM_DICT_def LANDSAT_K1_DICT_def
        LANDSAT_RADIANCE_MULT_def LANDSAT_RADIANCE_ADD_def LANDSAT_K1_CONST_def
        LANDSAT_K2_CONST_def float_eval)
  moreover have "LANDSAT_K2_DICT ''TM'' = Some 1260.56"
    by (simp add: LANDSAT_K2_DICT_def)
  ultimately show ?thesis by simp
qed

text \<open>
  C7, on the code. A file that has \<^verbatim>\<open>SENSOR_ID\<close> and no \<^verbatim>\<open>SPACECRAFT_ID\<close> makes
  \<^verbatim>\<open>readThermalInfoFromLandsatMTL\<close> raise UnboundLocalError, for the local \<^verbatim>\<open>band\<close>
  that only the spacecraft block assigns; and a file that names a spacecraft and lacks its
  gain key raises KeyError. Neither is an exception of the package.
\<close>

theorem thermal_missing_ids_raise_builtin_errors:
  "readThermalInfoFromLandsatMTL pf example_sensor_only_mtl tb = Inl UnboundLocalError
   \<and> thermalInfoFromMTL pf [''SENSOR_ID'' \<mapsto> ''TM''] tb = Inl UnboundLocalError
   \<and> thermalInfoFromMTL pf [''SPACECRAFT_ID'' \<mapsto> ''LANDSAT_8'', ''SENSOR_ID'' \<mapsto> ''OLI_TIRS''] tb
       = Inl KeyError"
  by (simp add: readThermalInfoFromLandsatMTL_def example_sensor_only_mtl_read
      thermalInfoFromMTL_def thermal_spacecraft_block_def thermal_sensor_block_def and_then_def
      getitem_def LANDSAT_TH_BAND_NUM_DICT_def LANDSAT_RADIANCE_MULT_def)

subsection \<open>The Landsat angle reader\<close>









subsection \<open>Angles read from raster files\<close>

lemma readData_text_band:
  "readData files filename (PyStr t) = Inl TypeError
   \<or> readData files filename (PyStr t) = Inl AttributeError"
  by (simp add: readData_def and_then_def split: option.splits)

lemma prepareForQuerying_always_raises:
  "prepareForQuerying files self = (Some TypeError, self)
   \<or> prepareForQuerying files self = (Some AttributeError, self)"
  using readData_text_band [of files "solarZenithFilename self" "solarZenithFilename self"]
  by (auto simp: prepareForQuerying_def)

text \<open>
  C1, on the code. With four readable one-band files and band index 0 for each,
  \<^verbatim>\<open>prepareForQuerying\<close> raises TypeError in its first \<^verbatim>\<open>readData\<close> call and leaves
  the object as it was, all four buffers still \<^verbatim>\<open>None\<close>: the call passes the file name
  where the band index belongs, and \<^verbatim>\<open>bandNum + 1\<close> adds 1 to a text. Reading each file
  at its own band index, as \<open>prepareForQuerying_spec\<close> does, loads the four buffers.
\<close>

theorem prepareForQuerying_passes_filename_as_band:
  "prepareForQuerying example_angle_files example_angles = (Some TypeError, example_angles)
   \<and> solarZenithData example_angles = PyNone
   \<and> prepareForQuerying_spec example_angle_files example_angles =
       (None, example_angles\<lparr>solarZenithData := Value [[0.5]],
          solarAzimuthData := Value [[2.5]], viewZenithData := Value [[0.1]],
          viewAzimuthData := Value [[1.5]]\<rparr>)"
  by (simp add: prepareForQuerying_def prepareForQuerying_spec_def readData_def and_then_def
      example_angle_files_def example_angles_def AnglesFileInfo_init_def)

text \<open>
  C6. On an AnglesFileInfo as its constructor leaves it, before any
  \<^verbatim>\<open>prepareForQuerying\<close>, each of the four angle queries raises TypeError for every
  region (the buffer is \<^verbatim>\<open>None\<close>, which cannot be subscripted); none returns a value.
\<close>

theorem file_angles_query_before_prepare_raises:
  "file_getSolarZenithAngle (AnglesFileInfo_init szf szb saf sab vzf vzb vaf vab) indices
     = Inl TypeError
   \<and> file_getSolarAzimuthAngle (AnglesFileInfo_init szf szb saf sab vzf vzb vaf vab) indices
     = Inl TypeError
   \<and> file_getViewZenithAngle (AnglesFileInfo_init szf szb saf sab vzf vzb vaf vab) indices
     = Inl TypeError
   \<and> file_getViewAzimuthAngle (AnglesFileInfo_init szf szb saf sab vzf vzb vaf vab) indices
     = Inl TypeError"
  by (simp add: file_getSolarZenithAngle_def file_getSolarAzimuthAngle_def
      file_getViewZenithAngle_def file_getViewAzimuthAngle_def buffer_mean_def
      AnglesFileInfo_init_def)

subsection \<open>The Sentinel-2 angle reader\<close>

text \<open>
  C3, on the code. For the granule \<open>example_granule\<close>, whose mean sun angle is a zenith
  of 45.0 and an azimuth of 180.0 degrees, \<^verbatim>\<open>getMeanSunAngles\<close> returns constant angles
  with solar zenith 45 and solar azimuth 180: the numbers of the file, unconverted. In
  radians they are \<open>radians 45\<close> and \<open>radians 180\<close>, which are other numbers.
\<close>

theorem getMeanSunAngles_keeps_degrees:
  "getMeanSunAngles decimal_float example_granule = Inr (AngleConstantInfo_init 45 180 0 0)
   \<and> radians 45 \<noteq> 45 \<and> radians 180 \<noteq> 180"
proof -
  have "getMeanSunAngles decimal_float example_granule = Inr (AngleConstantInfo_init 45 180 0 0)"
    by (simp add: getMeanSunAngles_def example_granule_def and_then_def py_index_def
        childNodes_def firstChild_data_def py_float_def float_eval)
  moreover have "radians 45 \<noteq> 45" "radians 180 \<noteq> 180"
    using pi_less_4 by (simp_all add: radians_def)
  ultimately show ?thesis by simp
qed

subsection \<open>The band table of FmaskConfig\<close>

lemma default_bands_distinct:
  "default_bands s = Inr table \<Longrightarrow> table r1 = Some i \<Longrightarrow> table r2 = Some i \<Longrightarrow> r1 = r2"
  by (auto simp: default_bands_def band_defs split: if_splits)

lemma bands_init: "FmaskConfig_init s drv = Inr cfg \<Longrightarrow> default_bands s = Inr (bands cfg)"
  by (auto simp: FmaskConfig_init_def and_then_def split: sum.splits option.splits)

text \<open>
  C8, as the code has it. A configuration as \<^verbatim>\<open>__init__\<close> returns it gives every band
  role of its table an index of its own, and for Landsat 4-7 the table has no Cirrus entry.
  \<^verbatim>\<open>setReflectiveBand\<close> stores the index it is given under the role it is given and
  leaves every other role as it was; it compares the index with no other.
\<close>

theorem FmaskConfig_init_bands_distinct:
  "FmaskConfig_init s drv = Inr cfg \<Longrightarrow>
   (\<forall>r1 r2 i. bands cfg r1 = Some i \<and> bands cfg r2 = Some i \<longrightarrow> r1 = r2)
   \<and> (s = FMASK_LANDSAT47 \<longrightarrow> bands cfg BAND_CIRRUS = None)
   \<and> bands (setReflectiveBand cfg band index) band = Some index
   \<and> (\<forall>r. r \<noteq> band \<longrightarrow> bands (setReflectiveBand cfg band index) r = bands cfg r)"
proof -
  assume init: "FmaskConfig_init s drv = Inr cfg"
  then have tab: "default_bands s = Inr (bands cfg)" by (rule bands_init)
  have "\<forall>r1 r2 i. bands cfg r1 = Some i \<and> bands cfg r2 = Some i \<longrightarrow> r1 = r2"
    using default_bands_distinct [OF tab] by blast
  moreover have "s = FMASK_LANDSAT47 \<longrightarrow> bands cfg BAND_CIRRUS = None"
  proof
    assume "s = FMASK_LANDSAT47"
    with tab have "bands cfg = [BAND_BLUE \<mapsto> 0, BAND_GREEN \<mapsto> 1, BAND_RED \<mapsto> 2,
        BAND_NIR \<mapsto> 3, BAND_SWIR1 \<mapsto> 4, BAND_SWIR2 \<mapsto> 5]"
      by (simp add: default_bands_def)
    then show "bands cfg BAND_CIRRUS = None"
      by (simp add: band_defs)
  qed
  ultimately show ?thesis by (simp add: setReflectiveBand_def)
qed

text \<open>
  The theorem at the Landsat 4-7 configuration, with a driver whose extension is
  \<^verbatim>\<open>img\<close>: it is constructed, Blue and Green have different indices, there is no Cirrus
  entry, and setting NIR to 7 changes NIR and leaves Red.
\<close>

theorem FmaskConfig_init_bands_distinct_witness:
  "\<not> isl (FmaskConfig_init FMASK_LANDSAT47 (Some (Some ''img'')))
   \<and> bands (projr (FmaskConfig_init FMASK_LANDSAT47 (Some (Some ''img'')))) BAND_BLUE
       \<noteq> bands (projr (FmaskConfig_init FMASK_LANDSAT47 (Some (Some ''img'')))) BAND_GREEN
   \<and> bands (projr (FmaskConfig_init FMASK_LANDSAT47 (Some (Some ''img'')))) BAND_CIRRUS = None
   \<and> bands (setReflectiveBand (projr (FmaskConfig_init FMASK_LANDSAT47 (Some (Some ''img''))))
              BAND_NIR 7) BAND_NIR = Some 7
   \<and> bands (setReflectiveBand (projr (FmaskConfig_init FMASK_LANDSAT47 (Some (Some ''img''))))
              BAND_NIR 7) BAND_RED = Some 2"
proof -
  have init: "FmaskConfig_init FMASK_LANDSAT47 (Some (Some ''img''))
      = Inr (projr (FmaskConfig_init FMASK_LANDSAT47 (Some (Some ''img''))))"
    by (simp add: FmaskConfig_init_def default_bands_def and_then_def)
  have blue: "bands (projr (FmaskConfig_init FMASK_LANDSAT47 (Some (Some ''img'')))) BAND_BLUE
      = Some 0"
    by (simp add: FmaskConfig_init_def default_bands_def and_then_def band_defs)
  have green: "bands (projr (FmaskConfig_init FMASK_LANDSAT47 (Some (Some ''img'')))) BAND_GREEN
      = Some 1"
    by (simp add: FmaskConfig_init_def default_bands_def and_then_def band_defs)
  have red: "bands (projr (FmaskConfig_init FMASK_LANDSAT47 (Some (Some ''img'')))) BAND_RED
      = Some 2"
    by (simp add: FmaskConfig_init_def default_bands_def and_then_def band_defs)
  have ne: "BAND_RED \<noteq> BAND_NIR"
    by (simp add: band_defs)
  from FmaskConfig_init_bands_distinct [OF init, of BAND_NIR 7] init blue green red ne
  show ?thesis by (metis isl_def old.sum.distinct(2) option.inject zero_neq_one)
qed

text \<open>
  C8 as stated fails after one call. On the Landsat 4-7 configuration,
  \<^verbatim>\<open>setReflectiveBand(BAND_BLUE, 1)\<close> leaves Blue and Green, two different roles, both
  at index 1; and \<^verbatim>\<open>setReflectiveBand(BAND_CIRRUS, 6)\<close> gives it a Cirrus entry.
\<close>

theorem setReflectiveBand_shared_index_counterexample:
  "\<not> isl (FmaskConfig_init FMASK_LANDSAT47 (Some None))
   \<and> bands (setReflectiveBand (projr (FmaskConfig_init FMASK_LANDSAT47 (Some None))) BAND_BLUE 1)
        BAND_BLUE = Some 1
   \<and> bands (setReflectiveBand (projr (FmaskConfig_init FMASK_LANDSAT47 (Some None))) BAND_BLUE 1)
        BAND_GREEN = Some 1
   \<and> BAND_BLUE \<noteq> BAND_GREEN
   \<and> bands (setReflectiveBand (projr (FmaskConfig_init FMASK_LANDSAT47 (Some None))) BAND_CIRRUS 6)
        BAND_CIRRUS = Some 6"
  by (simp add: FmaskConfig_init_def default_bands_def and_then_def setReflectiveBand_def
      FMASK_LANDSAT47_def band_defs)

subsection \<open>The thermal conversion\<close>

lemma py_index_in_range:
  "- int (length xs) \<le> i \<Longrightarrow> i < int (length xs) \<Longrightarrow>
   py_index xs i = Inr (xs ! nat (i mod int (length xs)))"
proof (cases "0 \<le> i")
  case True
  assume "i < int (length xs)"
  with True show ?thesis by (simp add: py_index_def)
next
  case False
  assume lo: "- int (length xs) \<le> i"
  from False lo have "i mod int (length xs) = int (length xs) + i"
    by (smt (verit) mod_add_self1 mod_pos_pos_trivial)
  with False lo show ?thesis by (simp add: py_index_def)
qed

text \<open>
  C4. When the configured thermal band is a band of the stack, \<^verbatim>\<open>scaleThermalDNtoC\<close>
  returns an array of the band's shape whose every element is computed from the digital
  number \<open>dn\<close> at that place: the radiance is \<open>dn * gain + offset\<close>; a radiance for
  which \<open>radiance <= 0\<close> holds is replaced by 1e-5; the temperature in Kelvin is
  \<open>K2 / log (K1 / radiance + 1)\<close>; the result is that temperature minus 273.15. This
  holds for every arithmetic \<open>np\<close> of the float type, so for float64 with its rounding,
  its infinities and its nan: the operations of the formula are those the code applies, in
  the code's order.
\<close>

theorem scaleThermalDNtoC_formula:
  "- int (length scaledBT) \<le> thermalBand1040um self
     \<and> thermalBand1040um self < int (length scaledBT)
   \<longrightarrow> scaleThermalDNtoC np self scaledBT =
       Inr (map (map (\<lambda>dn.
              f_sub np
                (f_div np (thermalK2_1040um self)
                   (f_log np
                      (f_add np
                         (f_div np (thermalK1_1040um self)
                            (if f_le np (f_add np (f_mul np (astype_float np dn)
                                                     (thermalGain1040um self))
                                                  (thermalOffset1040um self))
                                        (f_lit np 0)
                             then f_lit np (1 / 100000)
                             else f_add np (f_mul np (astype_float np dn)
                                              (thermalGain1040um self))
                                           (thermalOffset1040um self)))
                         (f_lit np 1))))
                (f_lit np 273.15)))
            (scaledBT ! nat (thermalBand1040um self mod int (length scaledBT))))"
proof
  assume "- int (length scaledBT) \<le> thermalBand1040um self
      \<and> thermalBand1040um self < int (length scaledBT)"
  then have "py_index scaledBT (thermalBand1040um self)
      = Inr (scaledBT ! nat (thermalBand1040um self mod int (length scaledBT)))"
    by (simp add: py_index_in_range)
  then show "scaleThermalDNtoC np self scaledBT =
       Inr (map (map (\<lambda>dn.
              f_sub np
                (f_div np (thermalK2_1040um self)
                   (f_log np
                      (f_add np
                         (f_div np (thermalK1_1040um self)
                            (if f_le np (f_add np (f_mul np (astype_float np dn)
                                                     (thermalGain1040um self))
                                                  (thermalOffset1040um self))
                                        (f_lit np 0)
                             then f_lit np (1 / 100000)
                             else f_add np (f_mul np (astype_float np dn)
                                              (thermalGain1040um self))
                                           (thermalOffset1040um self)))
                         (f_lit np 1))))
                (f_lit np 273.15)))
            (scaledBT ! nat (thermalBand1040um self mod int (length scaledBT))))"
    by (simp add: scaleThermalDNtoC_def and_then_def KELVIN_ZERO_DEGC_def comp_def)
qed

text \<open>
  The theorem at a one-band stack with the digital numbers -1, 0 and 5, gain 1 and offset
  0, in exact arithmetic: the radiances -1 and 0 are replaced by 1e-5, the radiance 5 is
  kept.
\<close>

theorem scaleThermalDNtoC_formula_witness:
  "scaleThermalDNtoC exact_arith (ThermalFileInfo_init 0 1 0 607.76 1260.56) [[[- 1, 0, 5]]]
     = Inr [[1260.56 / ln (607.76 / (1 / 100000) + 1) - 273.15,
             1260.56 / ln (607.76 / (1 / 100000) + 1) - 273.15,
             1260.56 / ln (607.76 / 5 + 1) - 273.15]]"
  using scaleThermalDNtoC_formula
    [of "[[[- 1, 0, 5]]]" "ThermalFileInfo_init 0 1 0 607.76 1260.56" exact_arith]
  by (simp add: ThermalFileInfo_init_def exact_arith_def)

subsection \<open>Constant angles\<close>

text \<open>
  C10. An AngleConstantInfo built from four angles answers each of the four queries with
  the matching constructor argument, whatever the region is; the empty region is one
  instance, spelled out in the last four conjuncts.
\<close>

theorem constant_angles_ignore_region:
  "const_getSolarZenithAngle (AngleConstantInfo_init sza saa vza vaa) indices = sza
   \<and> const_getSolarAzimuthAngle (AngleConstantInfo_init sza saa vza vaa) indices = saa
   \<and> const_getViewZenithAngle (AngleConstantInfo_init sza saa vza vaa) indices = vza
   \<and> const_getViewAzimuthAngle (AngleConstantInfo_init sza saa vza vaa) indices = vaa
   \<and> const_getSolarZenithAngle (AngleConstantInfo_init sza saa vza vaa) [] = sza
   \<and> const_getSolarAzimuthAngle (AngleConstantInfo_init sza saa vza vaa) [] = saa
   \<and> const_getViewZenithAngle (AngleConstantInfo_init sza saa vza vaa) [] = vza
   \<and> const_getViewAzimuthAngle (AngleConstantInfo_init sza saa vza vaa) [] = vaa"
  by (simp add: AngleConstantInfo_init_def const_getSolarZenithAngle_def
      const_getSolarAzimuthAngle_def const_getViewZenithAngle_def
      const_getViewAzimuthAngle_def)

end
